theory Spec2Isabelle
  imports Main "HOL-Library.Word" "HOL-Library.Sublist"
begin

unbundle bit_operations_syntax

section \<open>JavaScript values\<close>

text \<open>
  A string is the list of its code units; the characters of the model are the code units
  below 256. A \<open>number\<close> is an IEEE 754 double, kept as its 64 bits: the only thing the
  client ever does with a number is test it for truthiness (\<open>options.ttl || 30\<close>,
  \<open>!customData\<close>) and pass it on. A number is falsy when it is \<open>+0\<close>, \<open>-0\<close> or a \<open>NaN\<close>.
\<close>

type_synonym jsnumber = "64 word"

definition is_zero :: "jsnumber \<Rightarrow> bool" where
  "is_zero x = (x AND 0x7FFFFFFFFFFFFFFF = 0)"

definition is_NaN :: "jsnumber \<Rightarrow> bool" where
  "is_NaN x = (0x7FF0000000000000 < x AND 0x7FFFFFFFFFFFFFFF)"

definition number_truthy :: "jsnumber \<Rightarrow> bool" where
  "number_truthy x = (if is_zero x then False else if is_NaN x then False else True)"

text \<open>The doubles \<open>0\<close>, \<open>-0\<close>, \<open>1\<close>, \<open>30\<close> and a \<open>NaN\<close>.\<close>

definition num_0 :: jsnumber where "num_0 = 0x0000000000000000"
definition num_neg_0 :: jsnumber where "num_neg_0 = 0x8000000000000000"
definition num_1 :: jsnumber where "num_1 = 0x3FF0000000000000"
definition num_30 :: jsnumber where "num_30 = 0x403E000000000000"
definition num_NaN :: jsnumber where "num_NaN = 0x7FF8000000000000"

text \<open>
  \<open>customData\<close> has the type \<open>unknown\<close>: any value of the language. Objects are
  association lists of own properties in insertion order. A value is data only: what the
  methods of an object do when they are called (a \<open>toJSON\<close> method, a getter) is not part
  of the value but of the platform's state, see \<open>JSON_stringify\<close> below.
\<close>

datatype jsvalue =
    JUndefined
  | JNull
  | JBoolean bool
  | JNumber jsnumber
  | JBigInt int
  | JString string
  | JSymbol string
  | JFunction
  | JArray "jsvalue list"
  | JObject "(string \<times> jsvalue) list"

text \<open>\<open>ToBoolean\<close>: what \<open>!v\<close> and \<open>v || w\<close> test.\<close>

fun truthy :: "jsvalue \<Rightarrow> bool" where
  "truthy JUndefined = False"
| "truthy JNull = False"
| "truthy (JBoolean b) = b"
| "truthy (JNumber x) = number_truthy x"
| "truthy (JBigInt i) = (if i = 0 then False else True)"
| "truthy (JString s) = (if s = [] then False else True)"
| "truthy (JSymbol d) = True"
| "truthy JFunction = True"
| "truthy (JArray xs) = True"
| "truthy (JObject ps) = True"

text \<open>
  \<open>a || b\<close> on optional strings (\<open>None\<close> is \<open>undefined\<close>): the left operand when it is a
  non-empty string, the right operand otherwise.
\<close>

definition str_truthy :: "string option \<Rightarrow> bool" where
  "str_truthy a = (case a of None \<Rightarrow> False | Some s \<Rightarrow> (if s = [] then False else True))"

definition or_else :: "string option \<Rightarrow> string option \<Rightarrow> string option" where
  "or_else a b = (if str_truthy a then a else b)"

definition or_default :: "string option \<Rightarrow> string \<Rightarrow> string" where
  "or_default a d = (case or_else a (Some d) of Some s \<Rightarrow> s | None \<Rightarrow> d)"

definition num_or_default :: "jsnumber option \<Rightarrow> jsnumber \<Rightarrow> jsnumber" where
  "num_or_default a d =
     (case a of None \<Rightarrow> d | Some x \<Rightarrow> (if number_truthy x then x else d))"

text \<open>\<open>s.startsWith(p)\<close>.\<close>

definition startsWith :: "string \<Rightarrow> string \<Rightarrow> bool" where
  "startsWith s p = (take (length p) s = p)"

section \<open>The interfaces of the SDK\<close>

record KeyClaimConfig =
  apiKey :: string
  secret :: "string option"

datatype config_arg = ConfigObject KeyClaimConfig | ConfigString string

record CreateChallengeOptions =
  ttl :: "jsnumber option"

record CreateChallengeResponse =
  challenge :: string
  expires_in :: jsnumber
  encrypted :: "bool option"

record ValidateChallengeOptions =
  challenge :: string
  response :: string
  decryptedChallenge :: "string option"

datatype quota_limit = Limit jsnumber | Unlimited

record Quota =
  used :: jsnumber
  remaining :: jsnumber
  quota :: quota_limit

record ValidateChallengeResponse =
  valid :: bool
  signature :: "string option"
  quota :: "Quota option"
  error :: "string option"

record KeyClaimError =
  message :: string
  code :: "string option"
  statusCode :: "nat option"

section \<open>The transport and what it throws\<close>

text \<open>
  The body of a failure response. An object is kept at the fields the client reads from
  it (\<open>error\<close>, \<open>message\<close>, \<open>valid\<close>) and the ones a validation verdict may carry besides.
  A body need not be an object: it can be missing or falsy (\<open>undefined\<close>, \<open>null\<close>, the
  empty text), or a truthy value that is no object (a text that is not JSON, such as an
  HTML page of a proxy), kept as the text an error message prints for it.
\<close>

record ErrorData =
  error :: "string option"
  message :: "string option"
  valid :: "bool option"
  signature :: "string option"
  quota :: "Quota option"

datatype response_data = NoData | PrimitiveData string | ObjectData ErrorData

record 'a AxiosResponse =
  status :: nat
  data :: 'a

record AxiosError =
  response :: "response_data AxiosResponse option"
  request :: bool
  message :: string

text \<open>
  What a \<open>catch\<close> clause of the client can receive: an error of the transport, a
  \<open>KeyClaimError\<close>, or another \<open>Error\<close> object (a \<open>TypeError\<close>), which has a message only.
\<close>

datatype exn = Axios AxiosError | KeyClaim KeyClaimError | OtherError string

fun exn_response :: "exn \<Rightarrow> response_data AxiosResponse option" where
  "exn_response (Axios e) = AxiosError.response e"
| "exn_response (KeyClaim e) = None"
| "exn_response (OtherError m) = None"

fun exn_request :: "exn \<Rightarrow> bool" where
  "exn_request (Axios e) = AxiosError.request e"
| "exn_request (KeyClaim e) = False"
| "exn_request (OtherError m) = False"

fun exn_message :: "exn \<Rightarrow> string" where
  "exn_message (Axios e) = AxiosError.message e"
| "exn_message (KeyClaim e) = KeyClaimError.message e"
| "exn_message (OtherError m) = m"

text \<open>\<open>errorData?.error\<close> and \<open>errorData?.message\<close>: a property of a body.\<close>

fun data_error :: "response_data \<Rightarrow> string option" where
  "data_error NoData = None"
| "data_error (PrimitiveData text) = None"
| "data_error (ObjectData d) = ErrorData.error d"

fun data_message :: "response_data \<Rightarrow> string option" where
  "data_message NoData = None"
| "data_message (PrimitiveData text) = None"
| "data_message (ObjectData d) = ErrorData.message d"

text \<open>The message of the \<open>TypeError\<close> that \<open>'valid' in v\<close> throws when \<open>v\<close> is no object.\<close>

definition in_operator_error :: "string \<Rightarrow> string" where
  "in_operator_error text = ''Cannot use 'in' operator to search for 'valid' in '' @ text"

record AxiosInstance =
  baseURL :: string
  headers :: "(string \<times> string) list"
  timeout :: nat

record CreateChallengeBody =
  ttl :: jsnumber

text \<open>
  \<open>JSON.stringify\<close> returns a string, returns \<open>undefined\<close> (for a function or a symbol),
  or throws (for a \<open>BigInt\<close>).
\<close>

datatype stringify_result = Serialized string | NotSerialized | SerializeThrows string

text \<open>
  The platform the client runs on. None of it is code of the SDK, so the client is
  verified for every platform.

  \<^item> Node's \<open>crypto\<close>: \<open>sha256_hex s\<close> is \<open>createHash('sha256').update(s).digest('hex')\<close> and
    \<open>hmac_sha256_hex key s\<close> is \<open>createHmac('sha256', key).update(s).digest('hex')\<close>. Both
    are functions of their arguments. \<open>update\<close> encodes the string as UTF-8 before it is
    digested, so neither is taken to be injective.
  \<^item> \<open>JSON.stringify\<close> and the two endpoints behind \<open>axiosInstance.post\<close> read and change
    the state of the world outside the client, of a type \<open>'w\<close>: \<open>JSON.stringify\<close> runs the
    \<open>toJSON\<close> methods and getters of the value it is given, and a server answers as it
    pleases. Each takes the state before the call and returns the state after it.
\<close>

record 'w env =
  sha256_hex :: "string \<Rightarrow> string"
  hmac_sha256_hex :: "string \<Rightarrow> string \<Rightarrow> string"
  JSON_stringify :: "jsvalue \<Rightarrow> 'w \<Rightarrow> stringify_result \<times> 'w"
  post_create :: "AxiosInstance \<Rightarrow> string \<Rightarrow> CreateChallengeBody \<Rightarrow> 'w
                    \<Rightarrow> (exn + CreateChallengeResponse AxiosResponse) \<times> 'w"
  post_validate :: "AxiosInstance \<Rightarrow> string \<Rightarrow> ValidateChallengeOptions \<Rightarrow> 'w
                    \<Rightarrow> (exn + ValidateChallengeResponse AxiosResponse) \<times> 'w"

section \<open>The client\<close>

record KeyClaimClient =
  apiKey :: string
  baseUrl :: string
  secret :: string
  axiosInstance :: AxiosInstance

text \<open>\<open>DEFAULT_BASE_URL_B64\<close>, decoded.\<close>

definition defaultBaseUrl :: string where
  "defaultBaseUrl = ''https://keyclaim.org''"

definition invalid_api_key :: KeyClaimError where
  \<open>invalid_api_key =
     \<lparr>KeyClaimError.message = ''Invalid API key format. API key must start with "kc_"'',
      code = None, statusCode = None\<rparr>\<close>

definition new_KeyClaimClient :: "config_arg \<Rightarrow> string option \<Rightarrow> exn + KeyClaimClient" where
  "new_KeyClaimClient config secret' =
     (let (this_apiKey, this_baseUrl, this_secret) =
        (case config of
           ConfigString key \<Rightarrow> (key, defaultBaseUrl, or_default secret' key)
         | ConfigObject cfg \<Rightarrow>
             (KeyClaimConfig.apiKey cfg, defaultBaseUrl,
              or_default (KeyClaimConfig.secret cfg) (KeyClaimConfig.apiKey cfg)))
      in if this_apiKey = [] \<or> \<not> startsWith this_apiKey ''kc_''
         then Inl (KeyClaim invalid_api_key)
         else Inr \<lparr>KeyClaimClient.apiKey = this_apiKey,
                   baseUrl = this_baseUrl,
                   secret = this_secret,
                   axiosInstance =
                     \<lparr>baseURL = this_baseUrl @ ''/api'',
                      headers = [(''Content-Type'', ''application/json''),
                                 (''Authorization'', ''Bearer '' @ this_apiKey)],
                      timeout = 30000\<rparr>\<rparr>)"

definition createClient :: "config_arg \<Rightarrow> string option \<Rightarrow> exn + KeyClaimClient" where
  "createClient config secret' = new_KeyClaimClient config secret'"

subsection \<open>handleError\<close>

definition handleError :: "exn \<Rightarrow> string \<Rightarrow> KeyClaimError" where
  "handleError err defaultMessage =
     (case exn_response err of
        Some resp \<Rightarrow>
          (let statusCode = status resp;
               errorData = data resp;
               errorMessage =
                 or_else (or_else (data_error errorData) (data_message errorData))
                   (Some (exn_message err))
           in \<lparr>KeyClaimError.message = or_default errorMessage defaultMessage,
               code = data_error errorData,
               statusCode = Some statusCode\<rparr>)
      | None \<Rightarrow>
          (if exn_request err
           then \<lparr>KeyClaimError.message = ''Network error: No response received from server'',
                 code = Some ''network_error'', statusCode = None\<rparr>
           else \<lparr>KeyClaimError.message = or_default (Some (exn_message err)) defaultMessage,
                 code = Some ''unknown_error'', statusCode = None\<rparr>))"

subsection \<open>createChallenge\<close>

text \<open>
  Every method takes the client and the state of the world and returns its result, the
  client and the state of the world after the call, so that what a call does to the
  client's fields, and what it depends on besides its arguments, is part of the model.
\<close>

definition createChallenge ::
  "'w env \<Rightarrow> KeyClaimClient \<Rightarrow> CreateChallengeOptions option \<Rightarrow> 'w
     \<Rightarrow> (exn + CreateChallengeResponse) \<times> KeyClaimClient \<times> 'w" where
  "createChallenge env this options w =
     (let opts = (case options of None \<Rightarrow> \<lparr>CreateChallengeOptions.ttl = None\<rparr> | Some opt \<Rightarrow> opt)
      in case post_create env (axiosInstance this) ''/challenge/create''
                \<lparr>CreateChallengeBody.ttl = num_or_default (CreateChallengeOptions.ttl opts) num_30\<rparr>
                w of
           (Inr resp, w1) \<Rightarrow> (Inr (data resp), this, w1)
         | (Inl err, w1) \<Rightarrow>
             (Inl (KeyClaim (handleError err ''Failed to create challenge'')), this, w1))"

subsection \<open>generateResponse\<close>

definition custom_data_required :: KeyClaimError where
  "custom_data_required =
     \<lparr>KeyClaimError.message = ''Custom data is required for custom method'',
      code = None, statusCode = None\<rparr>"

definition unknown_method :: "string \<Rightarrow> KeyClaimError" where
  "unknown_method m =
     \<lparr>KeyClaimError.message = ''Unknown response method: '' @ m,
      code = None, statusCode = None\<rparr>"

definition generateResponse ::
  "'w env \<Rightarrow> KeyClaimClient \<Rightarrow> string \<Rightarrow> string option \<Rightarrow> jsvalue \<Rightarrow> 'w
     \<Rightarrow> (exn + string) \<times> KeyClaimClient \<times> 'w" where
  "generateResponse env this challenge' method customData w =
     (let m = (case method of None \<Rightarrow> ''hmac'' | Some given \<Rightarrow> given)
      in if m = ''echo'' then (Inr challenge', this, w)
         else if m = ''hmac'' then
           (Inr (hmac_sha256_hex env (KeyClaimClient.secret this) challenge'), this, w)
         else if m = ''hash'' then
           (Inr (sha256_hex env (challenge' @ KeyClaimClient.secret this)), this, w)
         else if m = ''custom'' then
           (if truthy customData then
              (case customData of
                 JString s \<Rightarrow> (Inr (sha256_hex env (challenge' @ '':'' @ s)), this, w)
               | _ \<Rightarrow>
                  (case JSON_stringify env customData w of
                     (Serialized s, w1) \<Rightarrow>
                       (Inr (sha256_hex env (challenge' @ '':'' @ s)), this, w1)
                   | (NotSerialized, w1) \<Rightarrow>
                       (Inr (sha256_hex env (challenge' @ '':'' @ ''undefined'')), this, w1)
                   | (SerializeThrows msg, w1) \<Rightarrow> (Inl (OtherError msg), this, w1)))
            else (Inl (KeyClaim custom_data_required), this, w))
         else (Inl (KeyClaim (unknown_method m)), this, w))"

subsection \<open>validateChallenge\<close>

text \<open>
  In the \<open>catch\<close> clause, \<open>axiosError.response?.data && 'valid' in axiosError.response.data\<close>
  is false when there is no response or its body is falsy, throws a \<open>TypeError\<close> when the
  body is truthy and no object, and otherwise tells whether the body has a \<open>valid\<close> field.
\<close>

definition validateChallenge ::
  "'w env \<Rightarrow> KeyClaimClient \<Rightarrow> ValidateChallengeOptions \<Rightarrow> 'w
     \<Rightarrow> (exn + ValidateChallengeResponse) \<times> KeyClaimClient \<times> 'w" where
  "validateChallenge env this options w =
     (case post_validate env (axiosInstance this) ''/challenge/validate''
             \<lparr>ValidateChallengeOptions.challenge = ValidateChallengeOptions.challenge options,
              response = ValidateChallengeOptions.response options,
              decryptedChallenge = decryptedChallenge options\<rparr>
             w of
        (Inr resp, w1) \<Rightarrow> (Inr (data resp), this, w1)
      | (Inl err, w1) \<Rightarrow>
          (let rethrown = (Inl (KeyClaim (handleError err ''Failed to validate challenge'')), this, w1)
           in case exn_response err of
                None \<Rightarrow> rethrown
              | Some failure \<Rightarrow>
                  (case data failure of
                     NoData \<Rightarrow> rethrown
                   | PrimitiveData text \<Rightarrow> (Inl (OtherError (in_operator_error text)), this, w1)
                   | ObjectData d \<Rightarrow>
                       (case ErrorData.valid d of
                          None \<Rightarrow> rethrown
                        | Some v \<Rightarrow>
                            (Inr \<lparr>ValidateChallengeResponse.valid = False,
                                  signature = None,
                                  quota = None,
                                  error = Some (or_default (ErrorData.error d)
                                                  ''Validation failed'')\<rparr>,
                             this, w1)))))"

subsection \<open>validate\<close>

definition validate ::
  "'w env \<Rightarrow> KeyClaimClient \<Rightarrow> string option \<Rightarrow> jsnumber option \<Rightarrow> jsvalue \<Rightarrow> 'w
     \<Rightarrow> (exn + ValidateChallengeResponse) \<times> KeyClaimClient \<times> 'w" where
  "validate env this method ttl' customData w =
     (let m = (case method of None \<Rightarrow> ''hmac'' | Some given \<Rightarrow> given);
          t = (case ttl' of None \<Rightarrow> num_30 | Some given \<Rightarrow> given);
          attempt =
            (case createChallenge env this (Some \<lparr>CreateChallengeOptions.ttl = Some t\<rparr>) w of
               (Inl err, this1, w1) \<Rightarrow> (Inl err, this1, w1)
             | (Inr created, this1, w1) \<Rightarrow>
                 (case generateResponse env this1 (CreateChallengeResponse.challenge created)
                         (Some m) customData w1 of
                    (Inl err, this2, w2) \<Rightarrow> (Inl err, this2, w2)
                  | (Inr generated, this2, w2) \<Rightarrow>
                      validateChallenge env this2
                        \<lparr>ValidateChallengeOptions.challenge =
                           CreateChallengeResponse.challenge created,
                         response = generated,
                         decryptedChallenge = None\<rparr>
                        w2))
      in case attempt of
           (Inr result, this3, w3) \<Rightarrow> (Inr result, this3, w3)
         | (Inl err, this3, w3) \<Rightarrow>
             (Inl (KeyClaim (handleError err ''Validation flow failed'')), this3, w3))"

section \<open>Sample platforms and a sample client\<close>

text \<open>
  Concrete inputs for the examples below. The digests are symbolic: the digest of \<open>s\<close> is
  the text \<open>sha256(s)\<close>.

  The state of the world of a sample platform is a list of texts: what the \<open>toJSON\<close> method
  of the object \<open>counter_object\<close> returns, serialized, at its coming calls. It stands for an
  object such as \<open>{toJSON() { return n++ }}\<close>. On other values \<open>sample_stringify\<close> leaves
  the state as it is and stands in for \<open>JSON.stringify\<close> on the values the examples pass:
  \<open>null\<close>, booleans, a \<open>BigInt\<close>, the empty array and the empty object, and the values
  for which \<open>JSON.stringify\<close> returns \<open>undefined\<close>. It answers \<open>undefined\<close> on every other
  value too, which is not what \<open>JSON.stringify\<close> returns for numbers, strings and non-empty
  arrays and objects; no example passes one. The transport of a sample platform gives
  the same answer to every request and leaves the state as it is.
\<close>

definition symbolic_sha256 :: "string \<Rightarrow> string" where
  "symbolic_sha256 s = ''sha256('' @ s @ '')''"

definition symbolic_hmac :: "string \<Rightarrow> string \<Rightarrow> string" where
  "symbolic_hmac key s = ''hmac-sha256('' @ key @ '', '' @ s @ '')''"

definition counter_object :: jsvalue where
  "counter_object = JObject [(''toJSON'', JFunction)]"

fun sample_table :: "jsvalue \<Rightarrow> stringify_result" where
  "sample_table JNull = Serialized ''null''"
| "sample_table (JBoolean b) = Serialized (if b then ''true'' else ''false'')"
| "sample_table (JBigInt i) = SerializeThrows ''Do not know how to serialize a BigInt''"
| "sample_table (JArray []) = Serialized ''[]''"
| "sample_table (JObject []) = Serialized ''{}''"
| "sample_table v = NotSerialized"

definition sample_stringify :: "jsvalue \<Rightarrow> string list \<Rightarrow> stringify_result \<times> string list" where
  "sample_stringify v w =
     (if v = counter_object
      then (case w of [] \<Rightarrow> (NotSerialized, []) | t # ts \<Rightarrow> (Serialized t, ts))
      else (sample_table v, w))"

definition platform ::
  "(exn + CreateChallengeResponse AxiosResponse)
     \<Rightarrow> (exn + ValidateChallengeResponse AxiosResponse) \<Rightarrow> string list env" where
  "platform created validated =
     \<lparr>sha256_hex = symbolic_sha256,
      hmac_sha256_hex = symbolic_hmac,
      JSON_stringify = sample_stringify,
      post_create = (\<lambda>inst url body w. (created, w)),
      post_validate = (\<lambda>inst url body w. (validated, w))\<rparr>"

definition answered :: "'a \<Rightarrow> exn + 'a AxiosResponse" where
  "answered d = Inr \<lparr>status = 200, data = d\<rparr>"

definition rejected :: "nat \<Rightarrow> string \<Rightarrow> response_data \<Rightarrow> exn + 'a" where
  "rejected st msg body =
     Inl (Axios \<lparr>AxiosError.response = Some \<lparr>status = st, data = body\<rparr>,
                 request = True, message = msg\<rparr>)"

definition sample_challenge :: CreateChallengeResponse where
  "sample_challenge =
     \<lparr>CreateChallengeResponse.challenge = ''abc123'', expires_in = num_30, encrypted = None\<rparr>"

definition sample_verdict :: ValidateChallengeResponse where
  "sample_verdict =
     \<lparr>ValidateChallengeResponse.valid = True, signature = Some ''sig'', quota = None,
      error = None\<rparr>"

definition sample_options :: ValidateChallengeOptions where
  "sample_options =
     \<lparr>ValidateChallengeOptions.challenge = ''abc123'', response = ''abc123'',
      decryptedChallenge = None\<rparr>"

definition sample_client :: KeyClaimClient where
  "sample_client =
     \<lparr>KeyClaimClient.apiKey = ''kc_test'',
      baseUrl = ''https://keyclaim.org'',
      secret = ''s'',
      axiosInstance =
        \<lparr>baseURL = ''https://keyclaim.org/api'',
         headers = [(''Content-Type'', ''application/json''),
                    (''Authorization'', ''Bearer kc_test'')],
         timeout = 30000\<rparr>\<rparr>"

definition sample_platform :: "string list env" where
  "sample_platform = platform (answered sample_challenge) (answered sample_verdict)"

section \<open>Auxiliary facts\<close>

lemma number_truthy_samples:
  "number_truthy num_0 = False" "number_truthy num_neg_0 = False"
  "number_truthy num_NaN = False" "number_truthy num_1 = True" "number_truthy num_30 = True"
  by (simp_all add: number_truthy_def is_zero_def is_NaN_def num_0_def num_neg_0_def
      num_NaN_def num_1_def num_30_def)

lemma falsy_values:
  "truthy d = False \<longleftrightarrow>
     d = JUndefined \<or> d = JNull \<or> d = JBoolean False \<or> d = JString '''' \<or> d = JBigInt 0
     \<or> (\<exists>x. d = JNumber x \<and> (is_zero x \<or> is_NaN x))"
  by (cases d) (auto simp: number_truthy_def)

lemma startsWith_prefix: "startsWith s p = prefix p s"
proof
  assume "startsWith s p"
  then have "s = p @ drop (length p) s"
    by (metis startsWith_def append_take_drop_id)
  then show "prefix p s"
    by (metis prefixI)
next
  assume "prefix p s"
  then obtain zs where "s = p @ zs"
    by (auto simp: prefix_def)
  then show "startsWith s p"
    by (simp add: startsWith_def)
qed

lemma or_default_cases:
  "or_default a d = (case a of None \<Rightarrow> d | Some s \<Rightarrow> if s = [] then d else s)"
  by (simp add: or_default_def or_else_def str_truthy_def split: option.splits)

lemma sample_client_constructed:
  "new_KeyClaimClient (ConfigString ''kc_test'') (Some ''s'') = Inr sample_client"
  by (simp add: new_KeyClaimClient_def sample_client_def startsWith_def defaultBaseUrl_def
      or_default_cases)

lemma options_rebuilt:
  "\<lparr>ValidateChallengeOptions.challenge = ValidateChallengeOptions.challenge p,
    response = ValidateChallengeOptions.response p,
    decryptedChallenge = decryptedChallenge p\<rparr> = p"
  by (cases p) simp





lemma createChallenge_throws:
  "createChallenge env c opts w = (Inl x, c', w') \<Longrightarrow> \<exists>k. x = KeyClaim k"
  by (auto simp: createChallenge_def Let_def split: prod.splits sum.splits)

lemma generateResponse_throws:
  "generateResponse env c ch m d w = (Inl x, c', w')
     \<Longrightarrow> (\<exists>k. x = KeyClaim k) \<or> (\<exists>msg. x = OtherError msg)"
  by (auto simp: generateResponse_def Let_def
      split: if_splits jsvalue.splits stringify_result.splits prod.splits)

lemma validateChallenge_throws:
  "validateChallenge env c p w = (Inl x, c', w')
     \<Longrightarrow> (\<exists>k. x = KeyClaim k) \<or> (\<exists>msg. x = OtherError msg)"
  by (auto simp: validateChallenge_def Let_def
      split: prod.splits sum.splits option.splits response_data.splits)






section \<open>Response generation\<close>

text \<open>
  C1. With the method \<open>hash\<close>, \<open>generateResponse\<close> returns the hex SHA-256 digest of the
  challenge followed by the secret, whatever the challenge, the secret, the custom data
  and the state of the world; with the secret \<open>s\<close> and the challenge \<open>abc123\<close> that is the
  digest of \<open>abc123s\<close>.
\<close>

theorem generateResponse_hash:
  "fst (generateResponse env this ch (Some ''hash'') customData w)
     = Inr (sha256_hex env (ch @ KeyClaimClient.secret this))
   \<and> (KeyClaimClient.secret this = ''s'' \<longrightarrow>
        fst (generateResponse env this ''abc123'' (Some ''hash'') customData w)
          = Inr (sha256_hex env ''abc123s''))"
  by (simp add: generateResponse_def)

theorem generateResponse_hash_witness:
  "KeyClaimClient.secret sample_client = ''s''
   \<and> fst (generateResponse sample_platform sample_client ''abc123'' (Some ''hash'') JUndefined [])
       = Inr ''sha256(abc123s)''"
  using generateResponse_hash
    [where env = sample_platform and this = sample_client and ch = "''abc123''"
       and customData = JUndefined and w = "[]"]
  by (simp add: sample_client_def sample_platform_def platform_def symbolic_sha256_def)




text \<open>
  C5, as amended. Without custom data the method \<open>custom\<close> throws the
  \<open>KeyClaimError\<close> "Custom data is required for custom method". With truthy custom data
  the result is the hex SHA-256 digest of the challenge, a colon and a text: the data
  itself when it is a string, and what \<open>JSON.stringify\<close> returns for the data when the data
  is not a string and \<open>JSON.stringify\<close> returns a string. When \<open>JSON.stringify\<close> returns
  \<open>undefined\<close> the text is \<open>undefined\<close>, and when it throws the call throws its error.
  The result varies with the data as the digest of that text does: data that is not a
  string and the string that \<open>JSON.stringify\<close> returns for it give the same result, and
  two strings give the same result exactly when the digests of their texts are the same.
\<close>

theorem generateResponse_custom:
  "fst (generateResponse env this ch (Some ''custom'') JUndefined w)
     = Inl (KeyClaim \<lparr>KeyClaimError.message = ''Custom data is required for custom method'',
                      code = None, statusCode = None\<rparr>)
   \<and> (truthy (JString s) \<longrightarrow>
        fst (generateResponse env this ch (Some ''custom'') (JString s) w)
          = Inr (sha256_hex env (ch @ '':'' @ s)))
   \<and> (truthy d \<and> (\<forall>t. d \<noteq> JString t) \<and> fst (JSON_stringify env d w) = Serialized s \<longrightarrow>
        fst (generateResponse env this ch (Some ''custom'') d w)
          = Inr (sha256_hex env (ch @ '':'' @ s)))
   \<and> (truthy d \<and> (\<forall>t. d \<noteq> JString t) \<and> fst (JSON_stringify env d w) = Serialized s
        \<and> truthy (JString s) \<longrightarrow>
        fst (generateResponse env this ch (Some ''custom'') d w)
          = fst (generateResponse env this ch (Some ''custom'') (JString s) w'))
   \<and> (truthy d \<and> (\<forall>t. d \<noteq> JString t) \<and> fst (JSON_stringify env d w) = NotSerialized \<longrightarrow>
        fst (generateResponse env this ch (Some ''custom'') d w)
          = Inr (sha256_hex env (ch @ '':'' @ ''undefined'')))
   \<and> (truthy d \<and> (\<forall>t. d \<noteq> JString t) \<and> fst (JSON_stringify env d w) = SerializeThrows msg
        \<longrightarrow> fst (generateResponse env this ch (Some ''custom'') d w) = Inl (OtherError msg))
   \<and> (truthy (JString s) \<and> truthy (JString s') \<longrightarrow>
        (fst (generateResponse env this ch (Some ''custom'') (JString s) w)
           = fst (generateResponse env this ch (Some ''custom'') (JString s') w'))
        = (sha256_hex env (ch @ '':'' @ s) = sha256_hex env (ch @ '':'' @ s')))"
proof -
  obtain r w1 where ser: "JSON_stringify env d w = (r, w1)"
    by (cases "JSON_stringify env d w")
  have absent: "fst (generateResponse env this ch (Some ''custom'') JUndefined w)
     = Inl (KeyClaim \<lparr>KeyClaimError.message = ''Custom data is required for custom method'',
                      code = None, statusCode = None\<rparr>)"
    by (simp add: generateResponse_def custom_data_required_def)
  have str: "fst (generateResponse env this ch (Some ''custom'') (JString x) v)
          = Inr (sha256_hex env (ch @ '':'' @ x))" if "truthy (JString x)" for x v
    using that by (simp add: generateResponse_def)
  have other: "fst (generateResponse env this ch (Some ''custom'') d w)
          = Inr (sha256_hex env (ch @ '':'' @ s))"
    if "truthy d" and "\<forall>t. d \<noteq> JString t" and "fst (JSON_stringify env d w) = Serialized s"
    using that ser by (cases d) (simp_all add: generateResponse_def)
  have undef: "fst (generateResponse env this ch (Some ''custom'') d w)
          = Inr (sha256_hex env (ch @ '':'' @ ''undefined''))"
    if "truthy d" and "\<forall>t. d \<noteq> JString t" and "fst (JSON_stringify env d w) = NotSerialized"
    using that ser by (cases d) (simp_all add: generateResponse_def)
  have throws: "fst (generateResponse env this ch (Some ''custom'') d w) = Inl (OtherError msg)"
    if "truthy d" and "\<forall>t. d \<noteq> JString t"
      and "fst (JSON_stringify env d w) = SerializeThrows msg"
    using that ser by (cases d) (simp_all add: generateResponse_def)
  from absent str other undef throws show ?thesis
    by simp
qed

theorem generateResponse_custom_witness:
  "truthy (JString ''user123'')
   \<and> fst (generateResponse sample_platform sample_client ''abc123'' (Some ''custom'')
            (JString ''user123'') [])
       = Inr ''sha256(abc123:user123)''
   \<and> truthy (JObject []) \<and> fst (sample_stringify (JObject []) []) = Serialized ''{}''
   \<and> truthy (JString ''{}'')
   \<and> fst (generateResponse sample_platform sample_client ''abc123'' (Some ''custom'')
            (JObject []) [])
       = Inr ''sha256(abc123:{})''
   \<and> fst (generateResponse sample_platform sample_client ''abc123'' (Some ''custom'')
            (JString ''{}'') [])
       = Inr ''sha256(abc123:{})''
   \<and> fst (generateResponse sample_platform sample_client ''abc123'' (Some ''custom'')
            (JString ''user123'') [])
       \<noteq> fst (generateResponse sample_platform sample_client ''abc123'' (Some ''custom'')
            (JString ''{}'') [])"
  using generateResponse_custom
    [where env = sample_platform and this = sample_client and ch = "''abc123''"
       and s = "''user123''" and s' = "''{}''" and d = "JObject []" and w = "[]"
       and w' = "[]"]
    generateResponse_custom
    [where env = sample_platform and this = sample_client and ch = "''abc123''"
       and s = "''{}''" and s' = "''user123''" and d = "JObject []" and w = "[]"
       and w' = "[]"]
  by (simp add: sample_platform_def platform_def symbolic_sha256_def sample_stringify_def
      counter_object_def)

text \<open>
  The claim C5 as it is written fails in three ways. The empty string is custom data that
  was supplied, and it is a string, but the call throws. For a \<open>BigInt\<close>, \<open>JSON.stringify\<close>
  throws and the call throws its \<open>TypeError\<close>; for a function it returns \<open>undefined\<close> and
  the text digested ends in \<open>undefined\<close>, which is no serialization of the function. And
  the output does not vary between the boolean \<open>true\<close> and the string \<open>true\<close>.
\<close>

theorem generateResponse_custom_counterexample:
  "fst (generateResponse sample_platform sample_client ''abc123'' (Some ''custom'')
          (JString '''') [])
     = Inl (KeyClaim \<lparr>KeyClaimError.message = ''Custom data is required for custom method'',
                      code = None, statusCode = None\<rparr>)
   \<and> fst (generateResponse sample_platform sample_client ''abc123'' (Some ''custom'')
          (JBigInt 10) [])
     = Inl (OtherError ''Do not know how to serialize a BigInt'')
   \<and> fst (generateResponse sample_platform sample_client ''abc123'' (Some ''custom'')
          JFunction [])
     = Inr ''sha256(abc123:undefined)''
   \<and> fst (generateResponse sample_platform sample_client ''abc123'' (Some ''custom'')
          (JBoolean True) [])
     = fst (generateResponse sample_platform sample_client ''abc123'' (Some ''custom'')
          (JString ''true'') [])
   \<and> JBoolean True \<noteq> JString ''true''"
  by (simp add: generateResponse_def custom_data_required_def sample_platform_def platform_def
      sample_stringify_def counter_object_def symbolic_sha256_def)

text \<open>
  C9. The method \<open>custom\<close> throws the \<open>KeyClaimError\<close> "Custom data is required for custom
  method" for every falsy value of the custom data: \<open>undefined\<close>, and also the empty
  string, the number \<open>0\<close>, \<open>false\<close> and \<open>null\<close>.
\<close>

theorem generateResponse_custom_falsy:
  "(truthy d = False \<longrightarrow>
      fst (generateResponse env this ch (Some ''custom'') d w)
        = Inl (KeyClaim \<lparr>KeyClaimError.message = ''Custom data is required for custom method'',
                         code = None, statusCode = None\<rparr>))
   \<and> truthy JUndefined = False
   \<and> truthy (JString '''') = False
   \<and> truthy (JNumber num_0) = False
   \<and> truthy (JBoolean False) = False
   \<and> truthy JNull = False"
  by (simp add: generateResponse_def custom_data_required_def number_truthy_def is_zero_def
      num_0_def)

theorem generateResponse_custom_falsy_witness:
  "truthy (JNumber num_0) = False
   \<and> fst (generateResponse sample_platform sample_client ''abc123'' (Some ''custom'')
            (JNumber num_0) [])
       = Inl (KeyClaim \<lparr>KeyClaimError.message = ''Custom data is required for custom method'',
                        code = None, statusCode = None\<rparr>)"
  using generateResponse_custom_falsy
    [where d = "JNumber num_0" and env = sample_platform
       and this = sample_client and ch = "''abc123''" and w = "[]"]
  by simp

text \<open>
  C6. For a method other than \<open>echo\<close>, \<open>hmac\<close>, \<open>hash\<close> and \<open>custom\<close>, \<open>generateResponse\<close>
  throws a \<open>KeyClaimError\<close> whose message is "Unknown response method: " followed by the
  method, so the method's name is part of the message.
\<close>

theorem generateResponse_unknown_method:
  assumes "m \<notin> {''echo'', ''hmac'', ''hash'', ''custom''}"
  shows "\<exists>e. fst (generateResponse env this ch (Some m) customData w) = Inl (KeyClaim e)
             \<and> KeyClaimError.message e = ''Unknown response method: '' @ m
             \<and> sublist m (KeyClaimError.message e)
             \<and> code e = None \<and> statusCode e = None"
proof -
  have "fst (generateResponse env this ch (Some m) customData w)
          = Inl (KeyClaim (unknown_method m))"
    using assms by (simp add: generateResponse_def)
  moreover have "sublist m (''Unknown response method: '' @ m)"
    by (rule suffix_imp_sublist) (simp add: suffix_def)
  ultimately show ?thesis
    by (simp add: unknown_method_def)
qed

theorem generateResponse_unknown_method_witness:
  "''md5'' \<notin> {''echo'', ''hmac'', ''hash'', ''custom''}
   \<and> fst (generateResponse sample_platform sample_client ''abc123'' (Some ''md5'') JUndefined [])
       = Inl (KeyClaim \<lparr>KeyClaimError.message = ''Unknown response method: md5'',
                        code = None, statusCode = None\<rparr>)"
proof -
  have out: "''md5'' \<notin> {''echo'', ''hmac'', ''hash'', ''custom''}"
    by simp
  from generateResponse_unknown_method
    [OF out, where env = sample_platform
       and this = sample_client and ch = "''abc123''" and customData = JUndefined and w = "[]"]
  show ?thesis
    by auto
qed

section \<open>Construction and the credentials\<close>

text \<open>
  C7. Construction throws a \<open>KeyClaimError\<close> for every API key that does not start with
  \<open>kc_\<close> (the empty key is one), from a configuration object as from positional
  arguments, and succeeds for every API key that starts with \<open>kc_\<close>.
\<close>

theorem new_KeyClaimClient_prefix:
  "(\<not> prefix ''kc_'' key \<longrightarrow>
      new_KeyClaimClient (ConfigString key) arg = Inl (KeyClaim invalid_api_key)
      \<and> new_KeyClaimClient (ConfigObject \<lparr>KeyClaimConfig.apiKey = key, secret = sec\<rparr>) arg
          = Inl (KeyClaim invalid_api_key))
   \<and> (prefix ''kc_'' key \<longrightarrow>
      (\<exists>this. new_KeyClaimClient (ConfigString key) arg = Inr this
              \<and> KeyClaimClient.apiKey this = key)
      \<and> (\<exists>this. new_KeyClaimClient (ConfigObject \<lparr>KeyClaimConfig.apiKey = key, secret = sec\<rparr>) arg
                   = Inr this
              \<and> KeyClaimClient.apiKey this = key))
   \<and> \<not> prefix ''kc_'' ''''"
proof -
  have empty: "prefix ''kc_'' key \<Longrightarrow> key \<noteq> []"
    by auto
  show ?thesis
    using empty by (auto simp: new_KeyClaimClient_def startsWith_prefix)
qed

theorem new_KeyClaimClient_prefix_witness:
  "\<not> prefix ''kc_'' ''sk_live''
   \<and> new_KeyClaimClient (ConfigString ''sk_live'') None = Inl (KeyClaim invalid_api_key)
   \<and> new_KeyClaimClient (ConfigObject \<lparr>KeyClaimConfig.apiKey = ''sk_live'', secret = None\<rparr>) None
       = Inl (KeyClaim invalid_api_key)
   \<and> new_KeyClaimClient (ConfigString '''') None = Inl (KeyClaim invalid_api_key)
   \<and> prefix ''kc_'' ''kc_test''
   \<and> new_KeyClaimClient (ConfigString ''kc_test'') (Some ''s'') = Inr sample_client"
proof -
  have bad: "\<not> prefix ''kc_'' ''sk_live''" and none: "\<not> prefix ''kc_'' ''''"
    and good: "prefix ''kc_'' ''kc_test''"
    by simp_all
  from bad none good
    new_KeyClaimClient_prefix [where key = "''sk_live''" and arg = None and sec = None]
    new_KeyClaimClient_prefix [where key = "''''" and arg = None and sec = None]
    new_KeyClaimClient_prefix [where key = "''kc_test''" and arg = "Some ''s''" and sec = None]
    sample_client_constructed
  show ?thesis
    by simp
qed




section \<open>Validation\<close>

text \<open>
  C3, as amended. When the transport rejects the validation request with a response whose
  body has a \<open>valid\<close> field, \<open>validateChallenge\<close> does not throw: it returns
  \<open>{valid: false, error: e}\<close>, where \<open>e\<close> is the body's \<open>error\<close> field when that is present and
  not the empty string, and "Validation failed" otherwise.
\<close>

theorem validateChallenge_rejected_with_verdict:
  assumes "post_validate env (axiosInstance this) ''/challenge/validate'' pair w = (Inl err, w')"
    and "exn_response err = Some resp"
    and "data resp = ObjectData body"
    and "ErrorData.valid body \<noteq> None"
  shows "fst (validateChallenge env this pair w)
           = Inr \<lparr>ValidateChallengeResponse.valid = False, signature = None, quota = None,
                  error = Some (case ErrorData.error body of
                                  None \<Rightarrow> ''Validation failed''
                                | Some e \<Rightarrow> if e = [] then ''Validation failed'' else e)\<rparr>"
  using assms
  by (auto simp: validateChallenge_def or_default_cases options_rebuilt Let_def
      split: option.splits)

theorem validateChallenge_rejected_with_verdict_witness:
  "fst (validateChallenge
          (platform (answered sample_challenge)
             (rejected 400 ''Request failed with status code 400''
                (ObjectData \<lparr>ErrorData.error = Some ''expired'', message = None,
                             valid = Some False, signature = None, quota = None\<rparr>)))
          sample_client sample_options [])
     = Inr \<lparr>ValidateChallengeResponse.valid = False, signature = None, quota = None,
            error = Some ''expired''\<rparr>"
  using validateChallenge_rejected_with_verdict
    [where env = "platform (answered sample_challenge)
             (rejected 400 ''Request failed with status code 400''
                (ObjectData \<lparr>ErrorData.error = Some ''expired'', message = None,
                             valid = Some False, signature = None, quota = None\<rparr>))"
       and this = sample_client and pair = sample_options and w = "[]" and w' = "[]"
       and err = "Axios \<lparr>AxiosError.response = Some \<lparr>status = 400,
                      data = ObjectData \<lparr>ErrorData.error = Some ''expired'', message = None,
                                   valid = Some False, signature = None, quota = None\<rparr>\<rparr>,
                      request = True, message = ''Request failed with status code 400''\<rparr>"
       and resp = "\<lparr>status = 400,
                      data = ObjectData \<lparr>ErrorData.error = Some ''expired'', message = None,
                                   valid = Some False, signature = None, quota = None\<rparr>\<rparr>"
       and body = "\<lparr>ErrorData.error = Some ''expired'', message = None,
                      valid = Some False, signature = None, quota = None\<rparr>"]
  by (simp add: platform_def rejected_def)

text \<open>
  The claim C3 as it is written fails: the body \<open>{valid: false, error: ""}\<close> has an \<open>error\<close>
  field, and the result's \<open>error\<close> is "Validation failed", not that field.
\<close>

theorem validateChallenge_empty_error_counterexample:
  "fst (validateChallenge
          (platform (answered sample_challenge)
             (rejected 400 ''Request failed with status code 400''
                (ObjectData \<lparr>ErrorData.error = Some '''', message = None, valid = Some False,
                             signature = None, quota = None\<rparr>)))
          sample_client sample_options [])
     = Inr \<lparr>ValidateChallengeResponse.valid = False, signature = None, quota = None,
            error = Some ''Validation failed''\<rparr>
   \<and> fst (validateChallenge
          (platform (answered sample_challenge)
             (rejected 400 ''Request failed with status code 400''
                (ObjectData \<lparr>ErrorData.error = Some '''', message = None, valid = Some False,
                             signature = None, quota = None\<rparr>)))
          sample_client sample_options [])
     \<noteq> Inr \<lparr>ValidateChallengeResponse.valid = False, signature = None, quota = None,
            error = Some ''''\<rparr>"
  by (simp add: validateChallenge_def or_default_cases platform_def rejected_def Let_def)

text \<open>
  C10. Whatever \<open>validateChallenge\<close> returns after the transport rejected the request has
  \<open>valid\<close> equal to \<open>false\<close>, an \<open>error\<close>, and neither a \<open>signature\<close> nor a \<open>quota\<close>: what the
  body of the failure response says in its \<open>valid\<close>, \<open>signature\<close> and \<open>quota\<close> fields is
  dropped.
\<close>

theorem validateChallenge_error_path_result:
  assumes "post_validate env (axiosInstance this) ''/challenge/validate'' pair w = (Inl err, w')"
    and "fst (validateChallenge env this pair w) = Inr result"
  shows "ValidateChallengeResponse.valid result = False
         \<and> ValidateChallengeResponse.signature result = None
         \<and> ValidateChallengeResponse.quota result = None
         \<and> ValidateChallengeResponse.error result \<noteq> None
         \<and> ValidateChallengeResponse.more result = ()"
  using assms
  by (auto simp: validateChallenge_def options_rebuilt Let_def
      split: option.splits response_data.splits)

theorem validateChallenge_error_path_result_witness:
  "fst (validateChallenge
          (platform (answered sample_challenge)
             (rejected 409 ''Request failed with status code 409''
                (ObjectData \<lparr>ErrorData.error = None, message = None, valid = Some True,
                       signature = Some ''sig'',
                       quota = Some \<lparr>used = num_1, remaining = num_30, quota = Unlimited\<rparr>\<rparr>)))
          sample_client sample_options [])
     = Inr \<lparr>ValidateChallengeResponse.valid = False, signature = None, quota = None,
            error = Some ''Validation failed''\<rparr>"
proof -
  let ?env = "platform (answered sample_challenge)
             (rejected 409 ''Request failed with status code 409''
                (ObjectData \<lparr>ErrorData.error = None, message = None, valid = Some True,
                       signature = Some ''sig'',
                       quota = Some \<lparr>used = num_1, remaining = num_30, quota = Unlimited\<rparr>\<rparr>))"
  obtain result where returned:
      "fst (validateChallenge ?env sample_client sample_options []) = Inr result"
    and err: "ValidateChallengeResponse.error result = Some ''Validation failed''"
    by (simp add: validateChallenge_def or_default_cases platform_def rejected_def
        sample_options_def Let_def)
  have "post_validate ?env (axiosInstance sample_client) ''/challenge/validate'' sample_options []
          = (rejected 409 ''Request failed with status code 409''
                (ObjectData \<lparr>ErrorData.error = None, message = None, valid = Some True,
                       signature = Some ''sig'',
                       quota = Some \<lparr>used = num_1, remaining = num_30, quota = Unlimited\<rparr>\<rparr>), [])"
    by (simp add: platform_def)
  then have "ValidateChallengeResponse.valid result = False
         \<and> ValidateChallengeResponse.signature result = None
         \<and> ValidateChallengeResponse.quota result = None
         \<and> ValidateChallengeResponse.error result \<noteq> None
         \<and> ValidateChallengeResponse.more result = ()"
    using validateChallenge_error_path_result [OF _ returned] by (simp add: rejected_def)
  with err have "result = \<lparr>ValidateChallengeResponse.valid = False, signature = None,
      quota = None, error = Some ''Validation failed''\<rparr>"
    by (cases result) simp
  with returned show ?thesis
    by simp
qed

section \<open>The combined flow\<close>

text \<open>
  C4. Every error \<open>validate\<close> throws is a \<open>KeyClaimError\<close>, but none carries an HTTP status:
  \<open>validate\<close> passes the error of the failed stage, which is a \<open>KeyClaimError\<close> already (or a
  \<open>TypeError\<close>), through \<open>handleError\<close> again, which finds no response on it, so the status
  is \<open>undefined\<close> and the code is \<open>unknown_error\<close>, also when the stage failed on a response
  of the server.
\<close>

theorem validate_error_has_no_status:
  assumes "fst (validate env this m t customData w) = Inl err"
  shows "\<exists>e. err = KeyClaim e \<and> statusCode e = None \<and> code e = Some ''unknown_error''"
proof -
  obtain c w' where thrown: "validate env this m t customData w = (Inl err, c, w')"
    using assms by (cases "validate env this m t customData w") auto
  then show ?thesis
    by (auto simp: validate_def Let_def handleError_def or_default_cases
        split: prod.splits sum.splits
        dest!: createChallenge_throws generateResponse_throws validateChallenge_throws)
qed

theorem validate_error_has_no_status_witness:
  "fst (createChallenge
          (platform (rejected 401 ''Request failed with status code 401''
                       (ObjectData \<lparr>ErrorData.error = Some ''Invalid API key'', message = None,
                              valid = None, signature = None, quota = None\<rparr>))
             (answered sample_verdict))
          sample_client (Some \<lparr>CreateChallengeOptions.ttl = Some num_30\<rparr>) [])
     = Inl (KeyClaim \<lparr>KeyClaimError.message = ''Invalid API key'',
                      code = Some ''Invalid API key'', statusCode = Some 401\<rparr>)
   \<and> fst (validate
          (platform (rejected 401 ''Request failed with status code 401''
                       (ObjectData \<lparr>ErrorData.error = Some ''Invalid API key'', message = None,
                              valid = None, signature = None, quota = None\<rparr>))
             (answered sample_verdict))
          sample_client (Some ''hmac'') (Some num_30) JUndefined [])
     = Inl (KeyClaim \<lparr>KeyClaimError.message = ''Invalid API key'',
                      code = Some ''unknown_error'', statusCode = None\<rparr>)"
proof -
  let ?env = "platform (rejected 401 ''Request failed with status code 401''
                       (ObjectData \<lparr>ErrorData.error = Some ''Invalid API key'', message = None,
                              valid = None, signature = None, quota = None\<rparr>))
             (answered sample_verdict)"
  have direct: "fst (createChallenge ?env sample_client
      (Some \<lparr>CreateChallengeOptions.ttl = Some num_30\<rparr>) [])
     = Inl (KeyClaim \<lparr>KeyClaimError.message = ''Invalid API key'',
                      code = Some ''Invalid API key'', statusCode = Some 401\<rparr>)"
    by (simp add: createChallenge_def handleError_def platform_def rejected_def
        or_default_cases or_else_def str_truthy_def)
  have thrown: "fst (validate ?env sample_client (Some ''hmac'') (Some num_30) JUndefined [])
     = Inl (KeyClaim \<lparr>KeyClaimError.message = ''Invalid API key'',
                      code = Some ''unknown_error'', statusCode = None\<rparr>)"
    by (simp add: validate_def createChallenge_def handleError_def platform_def rejected_def
        or_default_cases or_else_def str_truthy_def Let_def)
  from validate_error_has_no_status [OF thrown] direct thrown show ?thesis
    by simp
qed

end
